theory Spec2Isabelle
  imports Main "HOL-Library.Char_ord" "HOL-Library.List_Lexorder" "HOL-Library.Option_ord"
begin

section \<open>Data model of the persistence layer (base.py)\<close>

text \<open>
  Every mapped class of \<^verbatim>\<open>base.py\<close> becomes a record whose fields are the columns of
  the class, in the order of declaration. All columns are nullable in the source
  (an attribute that was never assigned reads as \<^verbatim>\<open>None\<close>), so every field is an
  option. Integer columns are Python integers (\<^typ>\<open>int\<close>), text columns are strings.
  Fields whose name is shared by several classes, or clashes with a constant of HOL,
  carry the class as a suffix (\<^verbatim>\<open>id_irl\<close>, \<^verbatim>\<open>active_user\<close>, ...).
\<close>

record IRLAssessment =
  id_irl :: "int option"
  project_no :: "int option"
  project_name :: "string option"
  project_leader_id :: "int option"
  project_description :: "string option"
  assessment_date :: "string option"
  project_notes :: "string option"
  crl :: "int option"
  trl :: "int option"
  brl :: "int option"
  iprl :: "int option"
  tmrl :: "int option"
  frl :: "int option"
  crl_notes :: "string option"
  trl_notes :: "string option"
  brl_notes :: "string option"
  iprl_notes :: "string option"
  tmrl_notes :: "string option"
  frl_notes :: "string option"
  crl_target :: "int option"
  trl_target :: "int option"
  brl_target :: "int option"
  iprl_target :: "int option"
  tmrl_target :: "int option"
  frl_target :: "int option"
  crl_target_lead :: "string option"
  trl_target_lead :: "string option"
  brl_target_lead :: "string option"
  iprl_target_lead :: "string option"
  tmrl_target_lead :: "string option"
  frl_target_lead :: "string option"
  crl_target_duedate :: "string option"
  trl_target_duedate :: "string option"
  brl_target_duedate :: "string option"
  iprl_target_duedate :: "string option"
  tmrl_target_duedate :: "string option"
  frl_target_duedate :: "string option"
  plot_targets :: "int option"
  active_irl :: "int option"

record User =
  user_id :: "int option"
  actual_name :: "string option"
  username :: "string option"
  password :: "string option"
  rights :: "int option"
  active_user :: "int option"
  org_id :: "int option"
  fac_id :: "int option"
  dep_id :: "int option"

record UserSettings =
  id_settings :: "int option"
  user_id_settings :: "int option"
  smooth_irl :: "int option"
  filter_on_user :: "int option"
  remember_project :: "int option"
  last_project_no :: "int option"
  ascending_irl :: "int option"
  ap_table_view :: "int option"
  dark_mode :: "int option"

record ProjectTeam =
  id_team :: "int option"
  project_id :: "int option"
  user_id_team :: "int option"
  project_rights :: "int option"
  active_team :: "int option"

record ActionPoint =
  ap_id :: "int option"
  assessment_id :: "int option"
  irl_type :: "string option"
  action_point :: "string option"
  responsible :: "int option"
  due_date :: "string option"
  progress :: "int option"
  comment :: "string option"

text \<open>
  The relational store, reduced to the five tables the operations below touch. A table
  is the list of its rows in storage order. Every operation of the source opens its own
  session on the store and closes it again, so an operation is a function from the
  store to a result and the store after it.
\<close>

record database =
  IRL_Data :: "IRLAssessment list"
  Users :: "User list"
  User_Settings :: "UserSettings list"
  Project_Teams :: "ProjectTeam list"
  Action_Points :: "ActionPoint list"

text \<open>The exceptions that escape the operations modelled here.\<close>

datatype error = AttributeError | TypeError | IntegrityError | AssertionError | ValueError

text \<open>
  \<^verbatim>\<open>IRLAssessment()\<close>: the constructor without arguments leaves every column unset.
\<close>

definition new_IRLAssessment :: IRLAssessment where
  "new_IRLAssessment = \<lparr>
     id_irl = None, project_no = None, project_name = None, project_leader_id = None,
     project_description = None, assessment_date = None, project_notes = None,
     crl = None, trl = None, brl = None, iprl = None, tmrl = None, frl = None,
     crl_notes = None, trl_notes = None, brl_notes = None, iprl_notes = None,
     tmrl_notes = None, frl_notes = None,
     crl_target = None, trl_target = None, brl_target = None, iprl_target = None,
     tmrl_target = None, frl_target = None,
     crl_target_lead = None, trl_target_lead = None, brl_target_lead = None,
     iprl_target_lead = None, tmrl_target_lead = None, frl_target_lead = None,
     crl_target_duedate = None, trl_target_duedate = None, brl_target_duedate = None,
     iprl_target_duedate = None, tmrl_target_duedate = None, frl_target_duedate = None,
     plot_targets = None, active_irl = None \<rparr>"

subsection \<open>Queries and primary keys\<close>

text \<open>
  \<^verbatim>\<open>query.first()\<close>: the first row of the result, \<^verbatim>\<open>None\<close> when there is none.
\<close>

fun first :: "'a list \<Rightarrow> 'a option" where
  "first [] = None"
| "first (x # xs) = Some x"

text \<open>
  The ORM renders \<^verbatim>\<open>Column == value\<close> as \<^verbatim>\<open>IS NULL\<close> when the Python value is
  \<^verbatim>\<open>None\<close> and as \<^verbatim>\<open>=\<close> otherwise, which is equality of options. A comparison of
  two columns, and \<^verbatim>\<open>Column.in_(values)\<close>, are the SQL operators, which a NULL never
  satisfies.
\<close>

definition sql_eq :: "'a option \<Rightarrow> 'a option \<Rightarrow> bool" where
  "sql_eq a b = (a \<noteq> None \<and> a = b)"

definition sql_in :: "'a option \<Rightarrow> 'a option list \<Rightarrow> bool" where
  "sql_in a bs = (a \<noteq> None \<and> a \<in> set bs)"

text \<open>The values of a column that are not NULL.\<close>

fun non_null :: "'a option list \<Rightarrow> 'a list" where
  "non_null [] = []"
| "non_null (None # vs) = non_null vs"
| "non_null (Some v # vs) = v # non_null vs"

text \<open>
  The key the store gives a row that is added without one: one more than the largest
  key of the table, 1 for a table without keys.
\<close>

definition next_id :: "int option list \<Rightarrow> int" where
  "next_id ids = (case non_null ids of [] \<Rightarrow> 1 | j # js \<Rightarrow> fold max js j + 1)"

text \<open>
  The key under which an added object is stored: a fresh one when the object has none,
  its own when no stored row has it; a key that is already taken violates the primary
  key and the commit raises.
\<close>

definition assign_id :: "int option \<Rightarrow> int option list \<Rightarrow> error + int" where
  "assign_id k ids =
     (case k of
        None \<Rightarrow> Inr (next_id ids)
      | Some i \<Rightarrow> if Some i \<in> set ids then Inl IntegrityError else Inr i)"

text \<open>
  The columns declared \<^verbatim>\<open>primary_key=True\<close>: in a state of the store the keys of
  the assessments and of the action points are set and differ from row to row.
\<close>

definition primary_keys_ok :: "database \<Rightarrow> bool" where
  "primary_keys_ok db =
     ((\<forall>r \<in> set (IRL_Data db). id_irl r \<noteq> None) \<and> distinct (map id_irl (IRL_Data db)) \<and>
      (\<forall>ap \<in> set (Action_Points db). ap_id ap \<noteq> None) \<and>
      distinct (map ap_id (Action_Points db)))"

section \<open>Assessments\<close>

subsection \<open>IRLAssessment.insert\<close>

text \<open>
  \<^verbatim>\<open>_getDate()\<close> formats the current day as \<^verbatim>\<open>YYYY-MM-DD\<close>; the model takes that
  string as the parameter \<open>today\<close>. The result is the returned error message, the
  object after the call and the store after the call.
\<close>

definition insert_irl ::
  "string \<Rightarrow> IRLAssessment \<Rightarrow> database \<Rightarrow> error + (string option \<times> IRLAssessment \<times> database)"
where
  "insert_irl today self db =
     (let self = self\<lparr>assessment_date := Some today\<rparr>;
          exists = (first [r \<leftarrow> IRL_Data db. project_no r = project_no self] \<noteq> None)
      in if exists then Inr (Some ''Project already exists in the database!'', self, db)
         else
           (case assign_id (id_irl self) (map id_irl (IRL_Data db)) of
              Inl e \<Rightarrow> Inl e
            | Inr k \<Rightarrow>
                (let self = self\<lparr>id_irl := Some k\<rparr>
                 in Inr (None, self, db\<lparr>IRL_Data := IRL_Data db @ [self]\<rparr>))))"

subsection \<open>IRLAssessment.update\<close>

text \<open>
  The overwrite branch collects every mapped column of the object (the key included)
  and writes them to the rows whose key is the object's key. The other branch builds a
  fresh object, assigns the copied columns one after the other and adds it; the store
  gives it its key. The commit is guarded by \<^verbatim>\<open>try\<close>: \<open>commit_ok\<close> tells whether
  the store accepts it, and a commit that fails leaves the store as it was and yields
  the error message.
\<close>

definition update_irl ::
  "string \<Rightarrow> bool \<Rightarrow> IRLAssessment \<Rightarrow> bool \<Rightarrow> bool \<Rightarrow> database \<Rightarrow> string option \<times> database"
where
  "update_irl today commit_ok self overwrite keep_ass_notes db =
     (let date = today;
          pending =
            (if overwrite \<or> Some date = assessment_date self then
               db\<lparr>IRL_Data := map (\<lambda>r. if id_irl r = id_irl self then self else r) (IRL_Data db)\<rparr>
             else
               (let new_irl = new_IRLAssessment\<lparr>
                      project_no := project_no self,
                      project_name := project_name self,
                      project_leader_id := project_leader_id self,
                      project_description := project_description self,
                      assessment_date := Some date,
                      crl := crl self, trl := trl self, brl := brl self,
                      iprl := iprl self, tmrl := tmrl self, frl := frl self\<rparr>;
                    new_irl =
                      (if keep_ass_notes then new_irl\<lparr>
                         project_notes := project_notes self,
                         crl_notes := crl_notes self, trl_notes := trl_notes self,
                         brl_notes := brl_notes self, iprl_notes := iprl_notes self,
                         tmrl_notes := tmrl_notes self, frl_notes := frl_notes self\<rparr>
                       else new_irl);
                    new_irl = new_irl\<lparr>
                      crl_target := crl_target self, trl_target := trl_target self,
                      brl_target := brl_target self, iprl_target := iprl_target self,
                      tmrl_target := tmrl_target self, frl_target := frl_target self,
                      crl_target_lead := crl_target_lead self,
                      trl_target_lead := trl_target_lead self,
                      brl_target_lead := brl_target_lead self,
                      iprl_target_lead := iprl_target_lead self,
                      tmrl_target_lead := tmrl_target_lead self,
                      frl_target_lead := frl_target_lead self,
                      crl_target_duedate := crl_target_duedate self,
                      trl_target_duedate := trl_target_duedate self,
                      brl_target_duedate := brl_target_duedate self,
                      iprl_target_duedate := iprl_target_duedate self,
                      tmrl_target_duedate := tmrl_target_duedate self,
                      frl_target_duedate := frl_target_duedate self,
                      plot_targets := plot_targets self,
                      active_irl := active_irl self\<rparr>;
                    new_irl = new_irl\<lparr>id_irl := Some (next_id (map id_irl (IRL_Data db)))\<rparr>
                in db\<lparr>IRL_Data := IRL_Data db @ [new_irl]\<rparr>))
      in if commit_ok then (None, pending)
         else (Some ''Could not save assessment to the database.'', db))"

subsection \<open>get\_irl and delete\_assessments\<close>

definition get_irl :: "int \<Rightarrow> database \<Rightarrow> IRLAssessment option" where
  "get_irl irl_ass_id db = first [r \<leftarrow> IRL_Data db. id_irl r = Some irl_ass_id]"

text \<open>
  The loop of \<^verbatim>\<open>delete_assessments\<close> over the given assessments: it carries the
  Action Points table, the success flag and the list of keys collected so far. Each
  round selects the action points of the assessment, deletes the rows whose key is
  among theirs, and compares the number of deleted rows with the number selected.
\<close>

fun delete_aps ::
  "IRLAssessment list \<Rightarrow> ActionPoint list \<Rightarrow> bool \<Rightarrow> int option list \<Rightarrow>
   ActionPoint list \<times> bool \<times> int option list"
where
  "delete_aps [] table success irl_ass_ids = (table, success, irl_ass_ids)"
| "delete_aps (irl_ass # irl_asses) table success irl_ass_ids =
     (let irl_ass_ids = irl_ass_ids @ [id_irl irl_ass];
          aps = [ap \<leftarrow> table. assessment_id ap = id_irl irl_ass];
          ap_ids = map ap_id aps;
          ap_dc = length [ap \<leftarrow> table. sql_in (ap_id ap) ap_ids];
          table = [ap \<leftarrow> table. \<not> sql_in (ap_id ap) ap_ids];
          success = (if ap_dc \<noteq> length ap_ids then False else success)
      in delete_aps irl_asses table success irl_ass_ids)"

text \<open>
  After the loop the assessment rows are deleted, the session commits, and only then
  is the second count compared: both deletions are in the store whatever is returned.
\<close>

definition delete_assessments :: "IRLAssessment list \<Rightarrow> database \<Rightarrow> bool \<times> database" where
  "delete_assessments irl_asses db =
     (case delete_aps irl_asses (Action_Points db) True [] of
        (table, success, irl_ass_ids) \<Rightarrow>
          (let irl_ass_dc = length [r \<leftarrow> IRL_Data db. sql_in (id_irl r) irl_ass_ids];
               db = db\<lparr>Action_Points := table,
                        IRL_Data := [r \<leftarrow> IRL_Data db. \<not> sql_in (id_irl r) irl_ass_ids]\<rparr>;
               success = (if irl_ass_dc \<noteq> length irl_ass_ids then False else success)
           in (success, db)))"

section \<open>Users\<close>

text \<open>
  \<^verbatim>\<open>bcrypt\<close> is an external library: \<open>hashpw\<close> (password and salt to hash), the salt
  that \<^verbatim>\<open>gensalt()\<close> draws and \<open>checkpw\<close> (password and stored hash to a verdict, or
  an exception for a malformed hash) are parameters of the model. The argument
  \<^verbatim>\<open>password\<close> of the source is \<open>passwd\<close> here, the column keeping the name.
\<close>

definition add_user ::
  "(string \<Rightarrow> string \<Rightarrow> string) \<Rightarrow> string \<Rightarrow> User \<Rightarrow> string \<Rightarrow> database \<Rightarrow>
   error + (User option \<times> database)"
where
  "add_user hashpw salt new_user passwd db =
     (let hashed_password = hashpw passwd salt;
          exists = first [u \<leftarrow> Users db. username u = username new_user]
      in if exists \<noteq> None then Inr (None, db)
         else
           (let new_user = new_user\<lparr>password := Some hashed_password\<rparr>
            in case assign_id (user_id new_user) (map user_id (Users db)) of
                 Inl e \<Rightarrow> Inl e
               | Inr k \<Rightarrow>
                   (let db = db\<lparr>Users := Users db @ [new_user\<lparr>user_id := Some k\<rparr>]\<rparr>
                    in case first [u \<leftarrow> Users db. username u = username new_user] of
                         None \<Rightarrow> Inl AttributeError
                       | Some new_user \<Rightarrow>
                           (let new_user_settings = \<lparr>
                                  id_settings = Some (next_id (map id_settings (User_Settings db))),
                                  user_id_settings = user_id new_user,
                                  smooth_irl = Some 1,
                                  filter_on_user = Some 1,
                                  remember_project = Some 1,
                                  last_project_no = None,
                                  ascending_irl = Some 1,
                                  ap_table_view = Some 0,
                                  dark_mode = Some 1\<rparr>;
                                db = db\<lparr>User_Settings := User_Settings db @ [new_user_settings]\<rparr>
                            in Inr (Some new_user, db)))))"

definition get_users :: "bool \<Rightarrow> int option \<Rightarrow> database \<Rightarrow> User list" where
  "get_users active org db =
     (let active = (if active then 1 else 0)
      in case org of
           None \<Rightarrow> [u \<leftarrow> Users db. active_user u = Some active]
         | Some _ \<Rightarrow> [u \<leftarrow> Users db. active_user u = Some active \<and> org_id u = org])"

text \<open>
  \<^verbatim>\<open>validate_user\<close>: \<^verbatim>\<open>db_user and checkpw(...)\<close> stops at a missing user; for a user
  that is found, the stored password is encoded before it is checked, and encoding
  \<^verbatim>\<open>None\<close> raises.
\<close>

definition validate_user ::
  "(string \<Rightarrow> string \<Rightarrow> error + bool) \<Rightarrow> string \<Rightarrow> string \<Rightarrow> database \<Rightarrow> error + User option"
where
  "validate_user checkpw user passwd db =
     (case first [u \<leftarrow> Users db. username u = Some user] of
        None \<Rightarrow> Inr None
      | Some db_user \<Rightarrow>
          (case User.password db_user of
             None \<Rightarrow> Inl AttributeError
           | Some hashed \<Rightarrow>
               (case checkpw passwd hashed of
                  Inl e \<Rightarrow> Inl e
                | Inr verified \<Rightarrow> Inr (if verified then Some db_user else None))))"

section \<open>Project listing\<close>

text \<open>
  The listing query groups the selected rows by \<^verbatim>\<open>project_no\<close> and orders the groups
  by \<^verbatim>\<open>max(assessment_date)\<close>. With a single \<^verbatim>\<open>max\<close> aggregate the other columns
  of a group are those of a row that attains the maximum. The aggregation is one pass
  over the rows: \<open>upsert_latest\<close> replaces the row kept for a project when the new
  row has a strictly later date. Dates are text and compare as text; a NULL date is
  below every date. Which of several rows with the latest date is kept, and the order
  of groups with equal dates, is left to the database engine; the model keeps the
  first such row in storage order and sorts stably.
\<close>

fun upsert_latest :: "IRLAssessment \<Rightarrow> IRLAssessment list \<Rightarrow> IRLAssessment list" where
  "upsert_latest r [] = [r]"
| "upsert_latest r (b # bs) =
     (if project_no b = project_no r
      then (if assessment_date b < assessment_date r then r else b) # bs
      else b # upsert_latest r bs)"

definition latest_per_project :: "IRLAssessment list \<Rightarrow> IRLAssessment list" where
  "latest_per_project rows = sort_key assessment_date (fold upsert_latest rows [])"

text \<open>
  The argument \<^verbatim>\<open>filt\<close> is documented as a Bool, and callers also pass the integer
  column \<^verbatim>\<open>filter_on_user\<close>. The source tests it with \<^verbatim>\<open>filt is True\<close> in the first
  branch and by truth value in the others, so the model keeps the two apart.
\<close>

datatype pyflag = PyBool bool | PyInt int

fun is_True :: "pyflag \<Rightarrow> bool" where
  "is_True (PyBool b) = b"
| "is_True (PyInt n) = False"

fun truthy :: "pyflag \<Rightarrow> bool" where
  "truthy (PyBool b) = b"
| "truthy (PyInt n) = (n \<noteq> 0)"

definition get_projects ::
  "User \<Rightarrow> pyflag \<Rightarrow> bool \<Rightarrow> database \<Rightarrow> error + IRLAssessment list"
where
  "get_projects user filt active db =
     (let active = (if active then 1 else 0);
          irl_data = latest_per_project [r \<leftarrow> IRL_Data db. active_irl r = Some active]
      in if rights user = Some 9 \<and> is_True filt then
           Inr [project \<leftarrow> irl_data. project_leader_id project = user_id user]
         else if rights user = Some 8 then
           (let users = get_users True (org_id user) db;
                user_ids = map user_id users
            in Inr [project \<leftarrow> irl_data.
                      if truthy filt then project_leader_id project = user_id user
                      else project_leader_id project \<in> set user_ids])
         else
           (case rights user of
              None \<Rightarrow> Inl TypeError
            | Some r \<Rightarrow>
                if r \<le> 3 then
                  (let irl_data = latest_per_project
                         [a. a \<leftarrow> IRL_Data db, t \<leftarrow> Project_Teams db,
                             user_id_team t = user_id user \<and> active_team t = Some 1 \<and>
                             sql_eq (project_no a) (project_id t) \<and>
                             active_irl a = Some active]
                   in if truthy filt
                      then Inr [project \<leftarrow> irl_data. project_leader_id project = user_id user]
                      else Inr irl_data)
                else Inr irl_data))"

text \<open>
  What the spec says of the listing query, as a predicate: \<open>rows\<close> holds rows of
  \<open>S\<close> only, one row for every project number of \<open>S\<close> and no two for the same
  number, and no row of \<open>S\<close> with the project number of a listed row has a later
  date than the listed row.
\<close>

definition latest_rows_of :: "IRLAssessment list \<Rightarrow> IRLAssessment set \<Rightarrow> bool" where
  "latest_rows_of acc S =
     (set acc \<subseteq> S \<and> distinct (map project_no acc) \<and> project_no ` set acc = project_no ` S \<and>
      (\<forall>b \<in> set acc. \<forall>q \<in> S. project_no q = project_no b \<longrightarrow>
         assessment_date q \<le> assessment_date b))"

text \<open>The grouped list of the first query of \<^verbatim>\<open>get_projects\<close>.\<close>

abbreviation latest_active :: "database \<Rightarrow> bool \<Rightarrow> IRLAssessment list" where
  "latest_active db active \<equiv>
     latest_per_project [q \<leftarrow> IRL_Data db. active_irl q = Some (if active then 1 else 0)]"

section \<open>Action points\<close>

text \<open>
  \<^verbatim>\<open>func.sum\<close> adds the values that are not NULL and is NULL when there is none.
\<close>

definition sql_sum :: "int option list \<Rightarrow> int option" where
  "sql_sum vs = (case non_null vs of [] \<Rightarrow> None | w # ws \<Rightarrow> Some (sum_list (w # ws)))"

text \<open>
  \<^verbatim>\<open>ap_completed\<close>: \<^verbatim>\<open>utils.datetime2dbdate(datetime.now())\<close> is the current day as
  stored text, the parameter \<open>today\<close>. Reading the date of an assessment that
  \<^verbatim>\<open>get_irl\<close> did not find raises.
\<close>

definition ap_completed :: "string \<Rightarrow> int \<Rightarrow> database \<Rightarrow> error + bool" where
  "ap_completed today irl_ass_id db =
     (let date = today
      in case get_irl irl_ass_id db of
           None \<Rightarrow> Inl AttributeError
         | Some irl \<Rightarrow>
             (let ass_date = assessment_date irl
              in if Some date = ass_date then Inr True
                 else
                   (let aps = [ap \<leftarrow> Action_Points db. assessment_id ap = Some irl_ass_id];
                        completion =
                          sql_sum (map progress
                            [ap \<leftarrow> Action_Points db. assessment_id ap = Some irl_ass_id]);
                        completed = (Some (int (length aps) * 100) = completion \<or> length aps = 0)
                    in Inr completed)))"

subsection \<open>get\_action\_points\<close>

text \<open>
  The values a cell of the returned table holds: a missing value, an integer, a text,
  a row dictionary (column \<^verbatim>\<open>aps\<close>), a user object or its absence (column
  \<^verbatim>\<open>user_obj\<close>), and a parsed date. A dictionary is the list of its items in
  insertion order. A table has its column labels and its rows.
\<close>

datatype cell =
  Null | IntCell int | TextCell string | DictCell "(string \<times> cell) list"
  | UserCell "User option" | DateCell string

record dataframe =
  columns :: "string list"
  records :: "(string \<times> cell) list list"

definition int_cell :: "int option \<Rightarrow> cell" where
  "int_cell v = (case v of None \<Rightarrow> Null | Some i \<Rightarrow> IntCell i)"

definition text_cell :: "string option \<Rightarrow> cell" where
  "text_cell v = (case v of None \<Rightarrow> Null | Some t \<Rightarrow> TextCell t)"

text \<open>\<^verbatim>\<open>to_dict\<close>: one item per column of the table, under the column's name.\<close>

definition to_dict_User :: "User \<Rightarrow> (string \<times> cell) list" where
  "to_dict_User u =
     [(''user_id'', int_cell (user_id u)), (''actual_name'', text_cell (actual_name u)),
      (''username'', text_cell (username u)), (''password'', text_cell (password u)),
      (''rights'', int_cell (rights u)), (''active'', int_cell (active_user u)),
      (''org_id'', int_cell (org_id u)), (''fac_id'', int_cell (fac_id u)),
      (''dep_id'', int_cell (dep_id u))]"

definition to_dict_ActionPoint :: "ActionPoint \<Rightarrow> (string \<times> cell) list" where
  "to_dict_ActionPoint ap =
     [(''ap_id'', int_cell (ap_id ap)), (''assessment_id'', int_cell (assessment_id ap)),
      (''irl_type'', text_cell (irl_type ap)), (''action_point'', text_cell (action_point ap)),
      (''responsible'', int_cell (responsible ap)), (''due_date'', text_cell (due_date ap)),
      (''progress'', int_cell (progress ap)), (''comment'', text_cell (comment ap))]"

text \<open>
  \<^verbatim>\<open>d[k] = v\<close> keeps the place of a key that is present and appends a new one;
  \<^verbatim>\<open>d.update(e)\<close> does so for every item of \<open>e\<close> in turn.
\<close>

fun dict_set :: "string \<Rightarrow> cell \<Rightarrow> (string \<times> cell) list \<Rightarrow> (string \<times> cell) list" where
  "dict_set k v [] = [(k, v)]"
| "dict_set k v ((k', v') # d) = (if k' = k then (k, v) # d else (k', v') # dict_set k v d)"

definition dict_update :: "(string \<times> cell) list \<Rightarrow> (string \<times> cell) list \<Rightarrow> (string \<times> cell) list" where
  "dict_update d e = fold (\<lambda>(k, v). dict_set k v) e d"

text \<open>
  \<^verbatim>\<open>pd.DataFrame(points)\<close>: the columns are the keys of the dictionaries in the order
  of their first appearance. Assigning a column sets the label when it is new and the
  values row by row.
\<close>

definition DataFrame :: "(string \<times> cell) list list \<Rightarrow> dataframe" where
  "DataFrame points =
     \<lparr>columns = fold (\<lambda>k ks. if k \<in> set ks then ks else ks @ [k]) (concat (map (map fst) points)) [],
      records = points\<rparr>"

definition set_column :: "string \<Rightarrow> cell list \<Rightarrow> dataframe \<Rightarrow> dataframe" where
  "set_column k vs df =
     \<lparr>columns = (if k \<in> set (columns df) then columns df else columns df @ [k]),
      records = map (\<lambda>(row, v). dict_set k v row) (zip (records df) vs)\<rparr>"

definition get_column :: "string \<Rightarrow> dataframe \<Rightarrow> cell list" where
  "get_column k df = map (\<lambda>row. case map_of row k of None \<Rightarrow> Null | Some v \<Rightarrow> v) (records df)"

text \<open>
  The relationship \<^verbatim>\<open>ap.user\<close>: the user whose key the column \<^verbatim>\<open>responsible\<close>
  refers to, if there is one.
\<close>

definition ap_user :: "database \<Rightarrow> ActionPoint \<Rightarrow> User option" where
  "ap_user db ap = first [u \<leftarrow> Users db. sql_eq (user_id u) (responsible ap)]"

text \<open>
  Modelled from the spec: \<^verbatim>\<open>utils.dbdates2datetimes\<close> is not among the sources; it
  applies the parse of one stored date, here the parameter \<open>dbdate2datetime\<close>, to every
  element of the sequence.
\<close>

definition dbdates2datetimes :: "(cell \<Rightarrow> cell) \<Rightarrow> cell list \<Rightarrow> cell list" where
  "dbdates2datetimes dbdate2datetime ds = map dbdate2datetime ds"

definition get_action_points ::
  "(cell \<Rightarrow> cell) \<Rightarrow> int \<Rightarrow> string option \<Rightarrow> database \<Rightarrow> error + dataframe"
where
  "get_action_points dbdate2datetime irl_ass_id irl_type_arg db =
     (if irl_type_arg \<noteq> None \<and>
         irl_type_arg \<notin> Some ` set [''CRL'', ''TRL'', ''BRL'', ''IPRL'', ''TMRL'', ''FRL'']
      then Inl AssertionError
      else
        (let aps =
               (if irl_type_arg = None
                then [ap \<leftarrow> Action_Points db. assessment_id ap = Some irl_ass_id]
                else [ap \<leftarrow> Action_Points db.
                        assessment_id ap = Some irl_ass_id \<and> irl_type ap = irl_type_arg]);
             points = map (\<lambda>ap.
                 dict_update
                   (case ap_user db ap of
                      Some u \<Rightarrow> to_dict_User u
                    | None \<Rightarrow>
                        [(''user_id'', Null), (''actual_name'', Null), (''username'', Null),
                         (''password'', Null), (''rights'', Null), (''active'', Null),
                         (''org_id'', Null), (''fac_id'', Null), (''dep_id'', Null)])
                   (to_dict_ActionPoint ap)) aps;
             user_objs = map (ap_user db) aps;
             aps_df = DataFrame points;
             aps_df =
               (if length points > 0 then
                  (let aps_df = set_column ''aps'' (map DictCell points) aps_df;
                       aps_df = set_column ''user_obj'' (map UserCell user_objs) aps_df
                   in set_column ''due_date''
                        (dbdates2datetimes dbdate2datetime (get_column ''due_date'' aps_df)) aps_df)
                else aps_df)
         in if length (records aps_df) = 0 then
              Inr \<lparr>columns = [''user_id'', ''actual_name'', ''username'', ''password'', ''rights'',
                               ''active'', ''org_id'', ''fac_id'', ''dep_id'', ''id'',
                               ''assessment_id'', ''irl_type'', ''action_point'', ''responsible'',
                               ''due_date'', ''progress'', ''comment'', ''aps'', ''user_obj''],
                   records = []\<rparr>
            else Inr aps_df))"

section \<open>Navigation (rn\_irl.py)\<close>

datatype page =
  admin_tools_pg | project_tools_pg | reporting_pg | sys_settings_pg | user_settings_pg

text \<open>
  \<^verbatim>\<open>get_tools_n_settings\<close>: a chain of comparisons on \<^verbatim>\<open>user.rights\<close>. Comparing
  \<^verbatim>\<open>None\<close> with \<^verbatim>\<open><\<close> raises; when no branch matches the function falls off its
  end and returns \<^verbatim>\<open>None\<close>.
\<close>

definition get_tools_n_settings :: "User \<Rightarrow> error + page list option" where
  "get_tools_n_settings user =
     (case rights user of
        None \<Rightarrow> Inl TypeError
      | Some r \<Rightarrow>
          Inr (if r < 2 then Some [user_settings_pg]
               else if r = 2 then Some [project_tools_pg, reporting_pg, user_settings_pg]
               else if r = 6 then Some [user_settings_pg]
               else if r = 7 then Some [user_settings_pg]
               else if r = 8 then Some [project_tools_pg, reporting_pg, user_settings_pg]
               else if r = 9 then Some [project_tools_pg, reporting_pg, admin_tools_pg,
                                        user_settings_pg, sys_settings_pg]
               else None))"

section \<open>Example data\<close>

definition example_user :: User where
  "example_user = \<lparr> user_id = Some 1, actual_name = Some ''Ada'', username = Some ''ada'',
     password = Some ''$2b$12$hash'', rights = Some 9, active_user = Some 1,
     org_id = Some 1, fac_id = None, dep_id = None \<rparr>"

definition example_irl :: IRLAssessment where
  "example_irl = new_IRLAssessment\<lparr> id_irl := Some 1, project_no := Some 7,
     project_name := Some ''Probe'', project_leader_id := Some 1,
     assessment_date := Some ''2024-01-10'', crl := Some 3, trl := Some 2,
     active_irl := Some 1 \<rparr>"

definition example_db :: database where
  "example_db = \<lparr> IRL_Data = [example_irl], Users = [example_user], User_Settings = [],
     Project_Teams = [], Action_Points = [] \<rparr>"

definition example_ap :: "int \<Rightarrow> int \<Rightarrow> ActionPoint" where
  "example_ap k p = \<lparr> ap_id = Some k, assessment_id = Some 1, irl_type = Some ''CRL'',
     action_point = Some ''Interview five customers'', responsible = Some 1,
     due_date = Some ''2024-03-01'', progress = Some p, comment = None \<rparr>"

definition example_hashpw :: "string \<Rightarrow> string \<Rightarrow> string" where
  "example_hashpw passwd salt = salt @ rev passwd"

text \<open>A small portfolio: three users, three projects, one of them inactive.\<close>

definition example_bob :: User where
  "example_bob = example_user\<lparr> user_id := Some 2, actual_name := Some ''Bob'',
     username := Some ''bob'', rights := Some 8 \<rparr>"

definition example_cy :: User where
  "example_cy = example_user\<lparr> user_id := Some 3, actual_name := Some ''Cy'',
     username := Some ''cy'', rights := Some 2, org_id := Some 2 \<rparr>"

definition example_irl2 :: IRLAssessment where
  "example_irl2 = example_irl\<lparr> id_irl := Some 2, assessment_date := Some ''2024-02-01'',
     crl := Some 4 \<rparr>"

definition example_irl3 :: IRLAssessment where
  "example_irl3 = example_irl\<lparr> id_irl := Some 3, project_no := Some 8,
     project_name := Some ''Lens'', project_leader_id := Some 3,
     assessment_date := Some ''2024-01-20'' \<rparr>"

definition example_irl4 :: IRLAssessment where
  "example_irl4 = example_irl\<lparr> id_irl := Some 4, project_no := Some 9,
     project_name := Some ''Kiln'', project_leader_id := Some 2,
     assessment_date := Some ''2023-12-01'', active_irl := Some 0 \<rparr>"

definition example_team :: "int \<Rightarrow> int \<Rightarrow> int \<Rightarrow> ProjectTeam" where
  "example_team k p u = \<lparr> id_team = Some k, project_id = Some p, user_id_team = Some u,
     project_rights = Some 1, active_team = Some 1 \<rparr>"

definition example_portfolio :: database where
  "example_portfolio = \<lparr>
     IRL_Data = [example_irl, example_irl2, example_irl3, example_irl4],
     Users = [example_user, example_bob, example_cy],
     User_Settings = [],
     Project_Teams = [example_team 1 7 3, example_team 2 8 3],
     Action_Points = [example_ap 1 100, example_ap 2 50,
                      (example_ap 3 100)\<lparr>assessment_id := Some 2\<rparr>] \<rparr>"

section \<open>Properties\<close>

subsection \<open>Primary keys\<close>

lemma first_eq_None: "first xs = None \<longleftrightarrow> xs = []"
  by (cases xs) simp_all

lemma fold_max_ge: "(a::int) \<le> fold max xs a \<and> (\<forall>x \<in> set xs. x \<le> fold max xs a)"
proof (induction xs arbitrary: a)
  case Nil
  show ?case by simp
next
  case (Cons y ys)
  have "max y a \<le> fold max ys (max y a)" and "\<forall>x \<in> set ys. x \<le> fold max ys (max y a)"
    using Cons.IH [of "max y a"] by simp_all
  then show ?case by auto
qed

lemma set_non_null: "set (non_null vs) = {v. Some v \<in> set vs}"
  by (induction vs rule: non_null.induct) auto

lemma next_id_fresh: "Some (next_id ids) \<notin> set ids"
proof
  assume a: "Some (next_id ids) \<in> set ids"
  define js where "js = non_null ids"
  from a have mem: "next_id ids \<in> set js"
    by (simp add: js_def set_non_null)
  show False
  proof (cases js)
    case Nil
    with mem show False by simp
  next
    case (Cons j js')
    then have n: "next_id ids = fold max js' j + 1"
      by (simp add: next_id_def js_def)
    from mem Cons have "next_id ids \<le> fold max js' j"
      using fold_max_ge [of j js'] by auto
    with n show False by simp
  qed
qed

subsection \<open>IRLAssessment.insert\<close>

text \<open>
  C3: when some stored row, active or not, carries the project number of the object,
  \<^verbatim>\<open>insert\<close> returns the message "Project already exists in the database!" and the
  store is unchanged. When no stored row carries it, and the object is new to the store
  (it has no key, or a key no stored row has), the call returns no error and the store
  gains exactly one row, appended to the table: the object, stamped with today's date,
  under a key that no row had before.
\<close>

theorem insert_irl_result:
  "((\<exists>r \<in> set (IRL_Data db). project_no r = project_no self) \<longrightarrow>
      (\<exists>obj. insert_irl today self db =
         Inr (Some ''Project already exists in the database!'', obj, db))) \<and>
   ((\<forall>r \<in> set (IRL_Data db). project_no r \<noteq> project_no self) \<and>
    (id_irl self = None \<or> id_irl self \<notin> set (map id_irl (IRL_Data db))) \<longrightarrow>
      (\<exists>k. Some k \<notin> set (map id_irl (IRL_Data db)) \<and>
           insert_irl today self db =
             Inr (None, self\<lparr>assessment_date := Some today, id_irl := Some k\<rparr>,
                  db\<lparr>IRL_Data := IRL_Data db @
                       [self\<lparr>assessment_date := Some today, id_irl := Some k\<rparr>]\<rparr>)))"
proof (intro conjI impI)
  assume "\<exists>r \<in> set (IRL_Data db). project_no r = project_no self"
  then have "[r \<leftarrow> IRL_Data db. project_no r = project_no self] \<noteq> []"
    by (auto simp: filter_empty_conv)
  then have "first [r \<leftarrow> IRL_Data db. project_no r = project_no self] \<noteq> None"
    by (cases "[r \<leftarrow> IRL_Data db. project_no r = project_no self]") simp_all
  then show "\<exists>obj. insert_irl today self db =
         Inr (Some ''Project already exists in the database!'', obj, db)"
    by (simp add: insert_irl_def Let_def)
next
  assume a: "(\<forall>r \<in> set (IRL_Data db). project_no r \<noteq> project_no self) \<and>
    (id_irl self = None \<or> id_irl self \<notin> set (map id_irl (IRL_Data db)))"
  then have "[r \<leftarrow> IRL_Data db. project_no r = project_no self] = []"
    by (auto simp: filter_empty_conv)
  then have nex: "first [r \<leftarrow> IRL_Data db. project_no r = project_no self] = None"
    by simp
  from a obtain k where k: "assign_id (id_irl self) (map id_irl (IRL_Data db)) = Inr k"
    and fresh: "Some k \<notin> set (map id_irl (IRL_Data db))"
    using next_id_fresh [of "map id_irl (IRL_Data db)"]
    by (cases "id_irl self") (auto simp: assign_id_def)
  have "insert_irl today self db =
             Inr (None, self\<lparr>assessment_date := Some today, id_irl := Some k\<rparr>,
                  db\<lparr>IRL_Data := IRL_Data db @
                       [self\<lparr>assessment_date := Some today, id_irl := Some k\<rparr>]\<rparr>)"
    using nex k by (simp add: insert_irl_def Let_def)
  with fresh show "\<exists>k. Some k \<notin> set (map id_irl (IRL_Data db)) \<and>
           insert_irl today self db =
             Inr (None, self\<lparr>assessment_date := Some today, id_irl := Some k\<rparr>,
                  db\<lparr>IRL_Data := IRL_Data db @
                       [self\<lparr>assessment_date := Some today, id_irl := Some k\<rparr>]\<rparr>)"
    by blast
qed

theorem insert_irl_result_witness:
  "insert_irl ''2024-02-01'' example_irl example_db =
     Inr (Some ''Project already exists in the database!'',
          example_irl\<lparr>assessment_date := Some ''2024-02-01''\<rparr>, example_db) \<and>
   insert_irl ''2024-02-01'' (new_IRLAssessment\<lparr>project_no := Some 8\<rparr>) example_db =
     Inr (None,
          new_IRLAssessment\<lparr>project_no := Some 8, assessment_date := Some ''2024-02-01'',
                            id_irl := Some 2\<rparr>,
          example_db\<lparr>IRL_Data :=
            [example_irl,
             new_IRLAssessment\<lparr>project_no := Some 8, assessment_date := Some ''2024-02-01'',
                               id_irl := Some 2\<rparr>]\<rparr>)"
  using insert_irl_result [of example_db example_irl "''2024-02-01''"]
    insert_irl_result [of example_db "new_IRLAssessment\<lparr>project_no := Some 8\<rparr>" "''2024-02-01''"]
  by (simp add: insert_irl_def example_db_def example_irl_def new_IRLAssessment_def
      assign_id_def next_id_def Let_def)

text \<open>
  C10: a call of \<^verbatim>\<open>insert\<close> that is refused because the project number exists has
  still changed the object in memory: its \<^verbatim>\<open>assessment_date\<close> is today's date, set
  before the existence check, and every other field is as before.
\<close>

theorem insert_irl_duplicate_stamps_date:
  assumes "\<exists>r \<in> set (IRL_Data db). project_no r = project_no self"
  shows "insert_irl today self db =
           Inr (Some ''Project already exists in the database!'',
                self\<lparr>assessment_date := Some today\<rparr>, db)"
proof -
  from assms have "[r \<leftarrow> IRL_Data db. project_no r = project_no self] \<noteq> []"
    by (auto simp: filter_empty_conv)
  then have "first [r \<leftarrow> IRL_Data db. project_no r = project_no self] \<noteq> None"
    by (cases "[r \<leftarrow> IRL_Data db. project_no r = project_no self]") simp_all
  then show ?thesis
    by (simp add: insert_irl_def Let_def)
qed

theorem insert_irl_duplicate_stamps_date_witness:
  "(\<exists>r \<in> set (IRL_Data example_db). project_no r = project_no example_irl) \<and>
   insert_irl ''2024-02-01'' example_irl example_db =
     Inr (Some ''Project already exists in the database!'',
          example_irl\<lparr>assessment_date := Some ''2024-02-01''\<rparr>, example_db)"
proof -
  have h: "\<exists>r \<in> set (IRL_Data example_db). project_no r = project_no example_irl"
    by (simp add: example_db_def)
  show ?thesis
    using h insert_irl_duplicate_stamps_date [OF h, of "''2024-02-01''"] by simp
qed

subsection \<open>IRLAssessment.update\<close>

text \<open>
  C2: with \<^verbatim>\<open>overwrite\<close> set, or when the assessment date the object carries is
  today's, \<^verbatim>\<open>update\<close> writes the object over the row that has its key: the table
  keeps its length and its keys. Otherwise it appends one row under a key that no row
  had: the object's project number, name, leader, description, six levels, six target
  levels, leads and due dates, \<^verbatim>\<open>plot_targets\<close> and \<^verbatim>\<open>active\<close>, with today's
  date; the project notes and the six notes of the scales are the object's when
  \<^verbatim>\<open>keep_ass_notes\<close> is set and unset when it is not. (The commit is the one the
  store accepts.)
\<close>

theorem update_irl_result:
  "(overwrite \<or> assessment_date self = Some today \<longrightarrow>
      update_irl today True self overwrite keep_ass_notes db =
        (None, db\<lparr>IRL_Data :=
                 map (\<lambda>r. if id_irl r = id_irl self then self else r) (IRL_Data db)\<rparr>) \<and>
      map id_irl (IRL_Data (snd (update_irl today True self overwrite keep_ass_notes db))) =
        map id_irl (IRL_Data db)) \<and>
   (\<not> overwrite \<and> assessment_date self \<noteq> Some today \<longrightarrow>
      (\<exists>k. Some k \<notin> set (map id_irl (IRL_Data db)) \<and>
           update_irl today True self overwrite keep_ass_notes db =
             (None, db\<lparr>IRL_Data := IRL_Data db @
                [(if keep_ass_notes then self
                  else self\<lparr>project_notes := None, crl_notes := None, trl_notes := None,
                            brl_notes := None, iprl_notes := None, tmrl_notes := None,
                            frl_notes := None\<rparr>)
                 \<lparr>id_irl := Some k, assessment_date := Some today\<rparr>]\<rparr>)))"
proof (intro conjI impI)
  assume a: "overwrite \<or> assessment_date self = Some today"
  then have c: "overwrite \<or> Some today = assessment_date self"
    by auto
  show "update_irl today True self overwrite keep_ass_notes db =
        (None, db\<lparr>IRL_Data :=
                 map (\<lambda>r. if id_irl r = id_irl self then self else r) (IRL_Data db)\<rparr>)"
    using c by (simp add: update_irl_def Let_def)
  then show "map id_irl (IRL_Data (snd (update_irl today True self overwrite keep_ass_notes db))) =
        map id_irl (IRL_Data db)"
    by (simp add: comp_def cong: map_cong)
next
  assume a: "\<not> overwrite \<and> assessment_date self \<noteq> Some today"
  then have c: "\<not> (overwrite \<or> Some today = assessment_date self)"
    by auto
  define k where "k = next_id (map id_irl (IRL_Data db))"
  have fresh: "Some k \<notin> set (map id_irl (IRL_Data db))"
    unfolding k_def by (rule next_id_fresh)
  have "update_irl today True self overwrite keep_ass_notes db =
             (None, db\<lparr>IRL_Data := IRL_Data db @
                [(if keep_ass_notes then self
                  else self\<lparr>project_notes := None, crl_notes := None, trl_notes := None,
                            brl_notes := None, iprl_notes := None, tmrl_notes := None,
                            frl_notes := None\<rparr>)
                 \<lparr>id_irl := Some k, assessment_date := Some today\<rparr>]\<rparr>)"
    using c by (simp add: update_irl_def Let_def k_def new_IRLAssessment_def)
  with fresh show "\<exists>k. Some k \<notin> set (map id_irl (IRL_Data db)) \<and>
           update_irl today True self overwrite keep_ass_notes db =
             (None, db\<lparr>IRL_Data := IRL_Data db @
                [(if keep_ass_notes then self
                  else self\<lparr>project_notes := None, crl_notes := None, trl_notes := None,
                            brl_notes := None, iprl_notes := None, tmrl_notes := None,
                            frl_notes := None\<rparr>)
                 \<lparr>id_irl := Some k, assessment_date := Some today\<rparr>]\<rparr>)"
    by blast
qed

theorem update_irl_result_witness:
  "update_irl ''2024-01-10'' True (example_irl\<lparr>crl := Some 4\<rparr>) False False example_db =
     (None, example_db\<lparr>IRL_Data := [example_irl\<lparr>crl := Some 4\<rparr>]\<rparr>) \<and>
   update_irl ''2024-02-01'' True (example_irl\<lparr>crl_notes := Some ''met two customers''\<rparr>)
       False False example_db =
     (None, example_db\<lparr>IRL_Data :=
        [example_irl, example_irl\<lparr>id_irl := Some 2, assessment_date := Some ''2024-02-01''\<rparr>]\<rparr>)"
  using update_irl_result [of False "example_irl\<lparr>crl := Some 4\<rparr>" "''2024-01-10''" False example_db]
    update_irl_result [of False "example_irl\<lparr>crl_notes := Some ''met two customers''\<rparr>"
      "''2024-02-01''" False example_db]
  by (simp add: update_irl_def example_db_def example_irl_def new_IRLAssessment_def
      next_id_def Let_def)

subsection \<open>add\_user\<close>

text \<open>
  C6: when a stored user has the username of the new user, \<^verbatim>\<open>add_user\<close> returns no
  user and the store, with its Users and User Settings tables, is unchanged. When no
  stored user has it, and the new user is new to the store (no key, or a key no stored
  user has), the call returns the created user, the new user with the hash of the
  password and its key; the Users table gains that one row and the User Settings table
  gains exactly one row, which carries the key of the created user and the defaults
  smooth_irl = 1, filter_on_user = 1, remember_project = 1, ascending_irl = 1,
  ap_table_view = 0 and dark_mode = 1.
\<close>

theorem add_user_result:
  "((\<exists>u \<in> set (Users db). username u = username new_user) \<longrightarrow>
      add_user hashpw salt new_user passwd db = Inr (None, db)) \<and>
   ((\<forall>u \<in> set (Users db). username u \<noteq> username new_user) \<and>
    (user_id new_user = None \<or> user_id new_user \<notin> set (map user_id (Users db))) \<longrightarrow>
      (\<exists>k j. Some k \<notin> set (map user_id (Users db)) \<and>
             Some j \<notin> set (map id_settings (User_Settings db)) \<and>
             add_user hashpw salt new_user passwd db =
               Inr (Some (new_user\<lparr>password := Some (hashpw passwd salt), user_id := Some k\<rparr>),
                    db\<lparr>Users := Users db @
                          [new_user\<lparr>password := Some (hashpw passwd salt), user_id := Some k\<rparr>],
                       User_Settings := User_Settings db @
                          [\<lparr>id_settings = Some j, user_id_settings = Some k,
                            smooth_irl = Some 1, filter_on_user = Some 1,
                            remember_project = Some 1, last_project_no = None,
                            ascending_irl = Some 1, ap_table_view = Some 0,
                            dark_mode = Some 1\<rparr>]\<rparr>)))"
proof (intro conjI impI)
  assume "\<exists>u \<in> set (Users db). username u = username new_user"
  then have "[u \<leftarrow> Users db. username u = username new_user] \<noteq> []"
    by (auto simp: filter_empty_conv)
  then have "first [u \<leftarrow> Users db. username u = username new_user] \<noteq> None"
    by (simp add: first_eq_None)
  then show "add_user hashpw salt new_user passwd db = Inr (None, db)"
    by (simp add: add_user_def Let_def)
next
  assume a: "(\<forall>u \<in> set (Users db). username u \<noteq> username new_user) \<and>
    (user_id new_user = None \<or> user_id new_user \<notin> set (map user_id (Users db)))"
  then have none: "[u \<leftarrow> Users db. username u = username new_user] = []"
    by (auto simp: filter_empty_conv)
  from a obtain k where k: "assign_id (user_id new_user) (map user_id (Users db)) = Inr k"
    and fresh: "Some k \<notin> set (map user_id (Users db))"
    using next_id_fresh [of "map user_id (Users db)"]
    by (cases "user_id new_user") (auto simp: assign_id_def)
  define j where "j = next_id (map id_settings (User_Settings db))"
  have freshj: "Some j \<notin> set (map id_settings (User_Settings db))"
    unfolding j_def by (rule next_id_fresh)
  have "add_user hashpw salt new_user passwd db =
               Inr (Some (new_user\<lparr>password := Some (hashpw passwd salt), user_id := Some k\<rparr>),
                    db\<lparr>Users := Users db @
                          [new_user\<lparr>password := Some (hashpw passwd salt), user_id := Some k\<rparr>],
                       User_Settings := User_Settings db @
                          [\<lparr>id_settings = Some j, user_id_settings = Some k,
                            smooth_irl = Some 1, filter_on_user = Some 1,
                            remember_project = Some 1, last_project_no = None,
                            ascending_irl = Some 1, ap_table_view = Some 0,
                            dark_mode = Some 1\<rparr>]\<rparr>)"
    using none k by (simp add: add_user_def Let_def j_def)
  with fresh freshj show "\<exists>k j. Some k \<notin> set (map user_id (Users db)) \<and>
             Some j \<notin> set (map id_settings (User_Settings db)) \<and>
             add_user hashpw salt new_user passwd db =
               Inr (Some (new_user\<lparr>password := Some (hashpw passwd salt), user_id := Some k\<rparr>),
                    db\<lparr>Users := Users db @
                          [new_user\<lparr>password := Some (hashpw passwd salt), user_id := Some k\<rparr>],
                       User_Settings := User_Settings db @
                          [\<lparr>id_settings = Some j, user_id_settings = Some k,
                            smooth_irl = Some 1, filter_on_user = Some 1,
                            remember_project = Some 1, last_project_no = None,
                            ascending_irl = Some 1, ap_table_view = Some 0,
                            dark_mode = Some 1\<rparr>]\<rparr>)"
    by blast
qed

theorem add_user_result_witness:
  "add_user example_hashpw ''salt'' (example_user\<lparr>user_id := None\<rparr>) ''secret'' example_db =
     Inr (None, example_db) \<and>
   add_user example_hashpw ''salt''
       (example_user\<lparr>user_id := None, username := Some ''bob''\<rparr>) ''secret'' example_db =
     Inr (Some (example_user\<lparr>user_id := Some 2, username := Some ''bob'',
                              password := Some ''saltterces''\<rparr>),
          example_db\<lparr>Users :=
              [example_user,
               example_user\<lparr>user_id := Some 2, username := Some ''bob'',
                             password := Some ''saltterces''\<rparr>],
            User_Settings :=
              [\<lparr>id_settings = Some 1, user_id_settings = Some 2, smooth_irl = Some 1,
                filter_on_user = Some 1, remember_project = Some 1, last_project_no = None,
                ascending_irl = Some 1, ap_table_view = Some 0, dark_mode = Some 1\<rparr>]\<rparr>)"
  using add_user_result [of example_db "example_user\<lparr>user_id := None\<rparr>"
      example_hashpw "''salt''" "''secret''"]
    add_user_result [of example_db "example_user\<lparr>user_id := None, username := Some ''bob''\<rparr>"
      example_hashpw "''salt''" "''secret''"]
  by (simp add: add_user_def example_db_def example_user_def example_hashpw_def
      assign_id_def next_id_def Let_def)

subsection \<open>ap\_completed\<close>

text \<open>
  C4: for an assessment that \<^verbatim>\<open>get_irl\<close> finds, \<^verbatim>\<open>ap_completed\<close> returns true when
  the assessment's date is today's, whatever the progress of its action points, or
  when it has no action points, or when the progress values of its action points add
  up to 100 times their number; in every other case it returns false. (A progress that
  is NULL adds nothing to the sum.)
\<close>

theorem ap_completed_result:
  assumes "get_irl irl_ass_id db = Some irl"
  shows "ap_completed today irl_ass_id db =
           Inr (assessment_date irl = Some today \<or>
                length [ap \<leftarrow> Action_Points db. assessment_id ap = Some irl_ass_id] = 0 \<or>
                sum_list (non_null (map progress
                             [ap \<leftarrow> Action_Points db. assessment_id ap = Some irl_ass_id])) =
                  100 * int (length [ap \<leftarrow> Action_Points db. assessment_id ap = Some irl_ass_id]))"
proof -
  define aps where "aps = [ap \<leftarrow> Action_Points db. assessment_id ap = Some irl_ass_id]"
  define ps where "ps = non_null (map progress aps)"
  have s: "sql_sum (map progress aps) = (if ps = [] then None else Some (sum_list ps))"
    by (cases ps) (simp_all add: sql_sum_def ps_def)
  have "(Some (int (length aps) * 100) = sql_sum (map progress aps) \<or> length aps = 0) =
        (length aps = 0 \<or> sum_list ps = 100 * int (length aps))"
  proof (cases "ps = []")
    case True
    then show ?thesis using s by auto
  next
    case False
    then show ?thesis using s by auto
  qed
  then show ?thesis
    using assms unfolding aps_def ps_def
    by (auto simp: ap_completed_def Let_def)
qed

theorem ap_completed_result_witness:
  "get_irl 1 example_db = Some example_irl \<and>
   ap_completed ''2024-02-01'' 1 example_db = Inr True \<and>
   ap_completed ''2024-02-01'' 1
     (example_db\<lparr>Action_Points := [example_ap 1 100, example_ap 2 100, example_ap 3 100]\<rparr>) =
     Inr True \<and>
   ap_completed ''2024-02-01'' 1
     (example_db\<lparr>Action_Points := [example_ap 1 100, example_ap 2 100, example_ap 3 50]\<rparr>) =
     Inr False \<and>
   ap_completed ''2024-01-10'' 1
     (example_db\<lparr>Action_Points := [example_ap 1 100, example_ap 2 100, example_ap 3 50]\<rparr>) =
     Inr True"
proof -
  have g: "get_irl 1 db = Some example_irl" if "IRL_Data db = [example_irl]" for db
    using that by (simp add: get_irl_def example_irl_def)
  have d: "assessment_date example_irl = Some ''2024-01-10''"
    by (simp add: example_irl_def)
  show ?thesis
    using g [of example_db] d
      ap_completed_result [OF g, of example_db "''2024-02-01''"]
      ap_completed_result [OF g,
        of "example_db\<lparr>Action_Points := [example_ap 1 100, example_ap 2 100, example_ap 3 100]\<rparr>"
        "''2024-02-01''"]
      ap_completed_result [OF g,
        of "example_db\<lparr>Action_Points := [example_ap 1 100, example_ap 2 100, example_ap 3 50]\<rparr>"
        "''2024-02-01''"]
      ap_completed_result [OF g,
        of "example_db\<lparr>Action_Points := [example_ap 1 100, example_ap 2 100, example_ap 3 50]\<rparr>"
        "''2024-01-10''"]
    by (simp add: example_db_def example_ap_def)
qed

subsection \<open>delete\_assessments\<close>

lemma delete_round:
  assumes nn: "\<forall>ap \<in> set table. ap_id ap \<noteq> None" and d: "distinct (map ap_id table)"
    and m: "ap \<in> set table"
  shows "sql_in (ap_id ap) (map ap_id [ap \<leftarrow> table. assessment_id ap = k]) =
         (assessment_id ap = k)"
proof
  from d have inj: "inj_on ap_id (set table)"
    by (simp add: distinct_map)
  assume "sql_in (ap_id ap) (map ap_id [ap \<leftarrow> table. assessment_id ap = k])"
  then obtain x where x: "x \<in> set table" "assessment_id x = k" "ap_id x = ap_id ap"
    by (auto simp: sql_in_def)
  with inj m have "x = ap"
    by (auto dest: inj_onD)
  with x show "assessment_id ap = k" by simp
next
  assume "assessment_id ap = k"
  with m nn show "sql_in (ap_id ap) (map ap_id [ap \<leftarrow> table. assessment_id ap = k])"
    by (auto simp: sql_in_def)
qed

lemma delete_aps_result:
  assumes "\<forall>ap \<in> set table. ap_id ap \<noteq> None" and "distinct (map ap_id table)"
  shows "delete_aps irl_asses table success irl_ass_ids =
           ([ap \<leftarrow> table. assessment_id ap \<notin> id_irl ` set irl_asses], success,
            irl_ass_ids @ map id_irl irl_asses)"
  using assms
proof (induction irl_asses arbitrary: table success irl_ass_ids)
  case Nil
  show ?case by simp
next
  case (Cons a as)
  let ?k = "id_irl a"
  let ?ids = "map ap_id [ap \<leftarrow> table. assessment_id ap = ?k]"
  have pt: "\<And>ap. ap \<in> set table \<Longrightarrow> sql_in (ap_id ap) ?ids = (assessment_id ap = ?k)"
    using Cons.prems by (rule delete_round)
  have sel: "[ap \<leftarrow> table. sql_in (ap_id ap) ?ids] = [ap \<leftarrow> table. assessment_id ap = ?k]"
    by (rule filter_cong [OF refl]) (rule pt)
  have rest: "[ap \<leftarrow> table. \<not> sql_in (ap_id ap) ?ids] = [ap \<leftarrow> table. assessment_id ap \<noteq> ?k]"
    by (rule filter_cong [OF refl]) (simp add: pt)
  have count: "length [ap \<leftarrow> table. sql_in (ap_id ap) ?ids] = length ?ids"
    using sel by simp
  have wf1: "\<forall>ap \<in> set [ap \<leftarrow> table. assessment_id ap \<noteq> ?k]. ap_id ap \<noteq> None"
    using Cons.prems(1) by simp
  have wf2: "distinct (map ap_id [ap \<leftarrow> table. assessment_id ap \<noteq> ?k])"
    using Cons.prems(2) by (rule distinct_map_filter)
  have "delete_aps (a # as) table success irl_ass_ids =
        delete_aps as [ap \<leftarrow> table. assessment_id ap \<noteq> ?k] success (irl_ass_ids @ [?k])"
    using rest count by (simp add: Let_def)
  also have "\<dots> = ([ap \<leftarrow> [ap \<leftarrow> table. assessment_id ap \<noteq> ?k]. assessment_id ap \<notin> id_irl ` set as],
                    success, (irl_ass_ids @ [?k]) @ map id_irl as)"
    using wf1 wf2 by (rule Cons.IH)
  also have "\<dots> = ([ap \<leftarrow> table. assessment_id ap \<notin> id_irl ` set (a # as)], success,
                    irl_ass_ids @ map id_irl (a # as))"
    by auto
  finally show ?case .
qed

text \<open>
  C5: in a store whose primary keys are in order, \<^verbatim>\<open>delete_assessments\<close> leaves the
  Action Points table without the rows whose \<^verbatim>\<open>assessment_id\<close> is the key of a given
  assessment and the assessment table without the rows whose key is that of a given
  assessment; the other tables are untouched. It returns true exactly when the number
  of assessment rows deleted is the number of assessments given (the count of deleted
  action points always matches in such a store), and the store after the call is the
  same whether it returns true or false: what was deleted stays deleted.
\<close>

theorem delete_assessments_result:
  assumes "primary_keys_ok db"
  shows "delete_assessments irl_asses db =
           (length [r \<leftarrow> IRL_Data db. id_irl r \<in> id_irl ` set irl_asses] = length irl_asses,
            db\<lparr>Action_Points :=
                 [ap \<leftarrow> Action_Points db. assessment_id ap \<notin> id_irl ` set irl_asses],
               IRL_Data := [r \<leftarrow> IRL_Data db. id_irl r \<notin> id_irl ` set irl_asses]\<rparr>)"
proof -
  from assms have ap: "\<forall>ap \<in> set (Action_Points db). ap_id ap \<noteq> None"
    "distinct (map ap_id (Action_Points db))"
    and nn: "\<forall>r \<in> set (IRL_Data db). id_irl r \<noteq> None"
    by (simp_all add: primary_keys_ok_def)
  have loop: "delete_aps irl_asses (Action_Points db) True [] =
      ([ap \<leftarrow> Action_Points db. assessment_id ap \<notin> id_irl ` set irl_asses], True,
       map id_irl irl_asses)"
    using delete_aps_result [OF ap, of irl_asses True "[]"] by simp
  have a: "[r \<leftarrow> IRL_Data db. sql_in (id_irl r) (map id_irl irl_asses)] =
        [r \<leftarrow> IRL_Data db. id_irl r \<in> id_irl ` set irl_asses]"
    by (rule filter_cong [OF refl]) (use nn in \<open>auto simp: sql_in_def\<close>)
  have b: "[r \<leftarrow> IRL_Data db. \<not> sql_in (id_irl r) (map id_irl irl_asses)] =
        [r \<leftarrow> IRL_Data db. id_irl r \<notin> id_irl ` set irl_asses]"
    by (rule filter_cong [OF refl]) (use nn in \<open>auto simp: sql_in_def\<close>)
  show ?thesis
    unfolding delete_assessments_def loop using a b
    by (simp add: Let_def)
qed

theorem delete_assessments_result_witness:
  "primary_keys_ok example_portfolio \<and>
   delete_assessments [example_irl, example_irl2] example_portfolio =
     (True, example_portfolio\<lparr>IRL_Data := [example_irl3, example_irl4], Action_Points := []\<rparr>) \<and>
   delete_assessments [example_irl, example_irl\<lparr>id_irl := Some 99\<rparr>] example_portfolio =
     (False, example_portfolio\<lparr>IRL_Data := [example_irl2, example_irl3, example_irl4],
               Action_Points := [(example_ap 3 100)\<lparr>assessment_id := Some 2\<rparr>]\<rparr>)"
proof -
  have h: "primary_keys_ok example_portfolio"
    by (simp add: primary_keys_ok_def example_portfolio_def example_irl_def example_irl2_def
        example_irl3_def example_irl4_def example_ap_def)
  show ?thesis
    using h delete_assessments_result [OF h, of "[example_irl, example_irl2]"]
      delete_assessments_result [OF h, of "[example_irl, example_irl\<lparr>id_irl := Some 99\<rparr>]"]
    by (simp add: example_portfolio_def example_irl_def example_irl2_def
        example_irl3_def example_irl4_def example_ap_def)
qed

subsection \<open>validate\_user\<close>

text \<open>
  C7: for a stored user whose password is not set, \<^verbatim>\<open>validate_user\<close> does not return:
  it raises AttributeError, whatever the password offered and whatever
  \<^verbatim>\<open>checkpw\<close> would say.
\<close>

theorem validate_user_without_password:
  "validate_user checkpw ''ada'' passwd
     (example_db\<lparr>Users := [example_user\<lparr>password := None\<rparr>]\<rparr>) = Inl AttributeError"
  by (simp add: validate_user_def example_user_def)

subsection \<open>get\_projects\<close>

lemma upsert_latest_set: "set (upsert_latest r acc) \<subseteq> insert r (set acc)"
  by (induction acc) auto

lemma upsert_latest_keys:
  "project_no ` set (upsert_latest r acc) = insert (project_no r) (project_no ` set acc)"
  by (induction acc) auto

lemma upsert_latest_distinct:
  "distinct (map project_no acc) \<Longrightarrow> distinct (map project_no (upsert_latest r acc))"
proof (induction acc)
  case Nil
  show ?case by simp
next
  case (Cons b bs)
  show ?case
  proof (cases "project_no b = project_no r")
    case True
    with Cons.prems show ?thesis by auto
  next
    case False
    have "project_no b \<notin> project_no ` set (upsert_latest r bs)"
      using Cons.prems False by (simp add: upsert_latest_keys)
    with Cons False show ?thesis by simp
  qed
qed

lemma upsert_latest_max:
  assumes "distinct (map project_no acc)"
    and "project_no ` S \<subseteq> project_no ` set acc"
    and "\<forall>b \<in> set acc. \<forall>q \<in> S. project_no q = project_no b \<longrightarrow>
           assessment_date q \<le> assessment_date b"
  shows "\<forall>b \<in> set (upsert_latest r acc). \<forall>q \<in> insert r S. project_no q = project_no b \<longrightarrow>
           assessment_date q \<le> assessment_date b"
  using assms
proof (induction acc arbitrary: S)
  case Nil
  then show ?case by simp
next
  case (Cons b bs)
  show ?case
  proof (cases "project_no b = project_no r")
    case True
    have nk: "project_no r \<notin> project_no ` set bs"
      using Cons.prems(1) True by auto
    let ?e = "if assessment_date b < assessment_date r then r else b"
    have e: "assessment_date b \<le> assessment_date ?e" "assessment_date r \<le> assessment_date ?e"
      "project_no ?e = project_no r"
      using True by auto
    have head: "\<forall>q \<in> insert r S. project_no q = project_no ?e \<longrightarrow>
        assessment_date q \<le> assessment_date ?e"
    proof (intro ballI impI)
      fix q assume q: "q \<in> insert r S" "project_no q = project_no ?e"
      show "assessment_date q \<le> assessment_date ?e"
      proof (cases "q = r")
        case True
        with e(2) show ?thesis by simp
      next
        case False
        with q have "q \<in> S" "project_no q = project_no b"
          using e(3) True by auto
        with Cons.prems(3) have "assessment_date q \<le> assessment_date b"
          by simp
        with e(1) show ?thesis by (meson order.trans)
      qed
    qed
    have tail: "\<forall>b' \<in> set bs. \<forall>q \<in> insert r S. project_no q = project_no b' \<longrightarrow>
        assessment_date q \<le> assessment_date b'"
      using Cons.prems(3) nk by auto
    from head tail True show ?thesis by simp
  next
    case False
    let ?S = "{q \<in> S. project_no q \<noteq> project_no b}"
    have nb: "project_no b \<notin> project_no ` set bs"
      using Cons.prems(1) by auto
    have "\<forall>b' \<in> set (upsert_latest r bs). \<forall>q \<in> insert r ?S. project_no q = project_no b' \<longrightarrow>
           assessment_date q \<le> assessment_date b'"
    proof (rule Cons.IH)
      show "distinct (map project_no bs)"
        using Cons.prems(1) by simp
      show "project_no ` ?S \<subseteq> project_no ` set bs"
        using Cons.prems(2) by auto
      show "\<forall>b' \<in> set bs. \<forall>q \<in> ?S. project_no q = project_no b' \<longrightarrow>
           assessment_date q \<le> assessment_date b'"
        using Cons.prems(3) by simp
    qed
    moreover have "project_no b \<notin> project_no ` set (upsert_latest r bs)"
      using nb False by (simp add: upsert_latest_keys)
    ultimately have tail: "\<forall>b' \<in> set (upsert_latest r bs). \<forall>q \<in> insert r S.
        project_no q = project_no b' \<longrightarrow> assessment_date q \<le> assessment_date b'"
      by (metis (mono_tags, lifting) image_eqI insert_iff mem_Collect_eq)
    have head: "\<forall>q \<in> insert r S. project_no q = project_no b \<longrightarrow>
        assessment_date q \<le> assessment_date b"
      using Cons.prems(3) False by auto
    from head tail False show ?thesis by simp
  qed
qed

lemma latest_rows_of_step:
  assumes "latest_rows_of acc S"
  shows "latest_rows_of (upsert_latest r acc) (insert r S)"
  unfolding latest_rows_of_def
proof (intro conjI)
  show "set (upsert_latest r acc) \<subseteq> insert r S"
    using upsert_latest_set [of r acc] assms by (auto simp: latest_rows_of_def)
  show "distinct (map project_no (upsert_latest r acc))"
    using assms by (simp add: latest_rows_of_def upsert_latest_distinct)
  show "project_no ` set (upsert_latest r acc) = project_no ` insert r S"
    using assms by (simp add: latest_rows_of_def upsert_latest_keys)
  show "\<forall>b \<in> set (upsert_latest r acc). \<forall>q \<in> insert r S. project_no q = project_no b \<longrightarrow>
           assessment_date q \<le> assessment_date b"
    using assms by (intro upsert_latest_max) (simp_all add: latest_rows_of_def)
qed

lemma latest_rows_of_fold:
  "latest_rows_of acc S \<Longrightarrow> latest_rows_of (fold upsert_latest rows acc) (S \<union> set rows)"
proof (induction rows arbitrary: acc S)
  case Nil
  then show ?case by simp
next
  case (Cons r rows)
  from Cons.prems have "latest_rows_of (upsert_latest r acc) (insert r S)"
    by (rule latest_rows_of_step)
  then have "latest_rows_of (fold upsert_latest rows (upsert_latest r acc)) (insert r S \<union> set rows)"
    by (rule Cons.IH)
  then show ?case by simp
qed

lemma latest_per_project_latest: "latest_rows_of (latest_per_project rows) (set rows)"
proof -
  have "latest_rows_of [] {}"
    by (simp add: latest_rows_of_def)
  then have "latest_rows_of (fold upsert_latest rows []) ({} \<union> set rows)"
    by (rule latest_rows_of_fold)
  then show ?thesis
    by (simp add: latest_rows_of_def latest_per_project_def distinct_map)
qed

lemma upsert_latest_idem: "upsert_latest r (upsert_latest r acc) = upsert_latest r acc"
  by (induction acc) auto

lemma fold_upsert_copies:
  "fold upsert_latest (concat (map (\<lambda>t. if c t then [r] else []) ts)) acc =
     (if \<exists>t \<in> set ts. c t then upsert_latest r acc else acc)"
proof (induction ts arbitrary: acc)
  case Nil
  show ?case by simp
next
  case (Cons t ts)
  show ?case
  proof (cases "c t")
    case True
    then show ?thesis
      by (simp add: Cons.IH upsert_latest_idem)
  next
    case False
    then show ?thesis
      by (simp add: Cons.IH)
  qed
qed

lemma filter_upsert_latest:
  "[p \<leftarrow> upsert_latest r acc. M (project_no p)] =
     (if M (project_no r) then upsert_latest r [p \<leftarrow> acc. M (project_no p)]
      else [p \<leftarrow> acc. M (project_no p)])"
  by (induction acc) auto

lemma fold_upsert_join:
  assumes c: "\<And>a t. c a t = (act a \<and> m a t)"
    and M: "\<And>a. (\<exists>t \<in> set ts. m a t) = M (project_no a)"
  shows "fold upsert_latest (concat (map (\<lambda>a. concat (map (\<lambda>t. if c a t then [a] else []) ts)) rows))
           [p \<leftarrow> acc. M (project_no p)] =
         [p \<leftarrow> fold upsert_latest [a \<leftarrow> rows. act a] acc. M (project_no p)]"
proof (induction rows arbitrary: acc)
  case Nil
  show ?case by simp
next
  case (Cons a rows)
  have ex: "(\<exists>t \<in> set ts. c a t) = (act a \<and> M (project_no a))"
    using c M [of a] by auto
  show ?case
  proof (cases "act a")
    case False
    with ex show ?thesis
      by (simp add: fold_upsert_copies Cons.IH)
  next
    case True
    have "[p \<leftarrow> upsert_latest a acc. M (project_no p)] =
          (if M (project_no a) then upsert_latest a [p \<leftarrow> acc. M (project_no p)]
           else [p \<leftarrow> acc. M (project_no p)])"
      by (rule filter_upsert_latest)
    with True ex show ?thesis
      using Cons.IH [of "upsert_latest a acc"]
      by (simp add: fold_upsert_copies)
  qed
qed

lemma latest_per_project_join:
  assumes c: "\<And>a t. c a t = (act a \<and> m a t)"
    and M: "\<And>a. (\<exists>t \<in> set ts. m a t) = M (project_no a)"
  shows "latest_per_project [a. a \<leftarrow> rows, t \<leftarrow> ts, c a t] =
         [p \<leftarrow> latest_per_project [a \<leftarrow> rows. act a]. M (project_no p)]"
proof -
  have "fold upsert_latest [a. a \<leftarrow> rows, t \<leftarrow> ts, c a t] [] =
        [p \<leftarrow> fold upsert_latest [a \<leftarrow> rows. act a] []. M (project_no p)]"
    using fold_upsert_join [of c act m ts M rows "[]"] c M by simp
  then show ?thesis
    by (simp add: latest_per_project_def filter_sort)
qed

lemma get_users_active_ids:
  "(x \<in> user_id ` set (get_users True org db)) =
   (\<exists>u \<in> set (Users db). active_user u = Some 1 \<and> (org = None \<or> org_id u = org) \<and> x = user_id u)"
  by (cases org) (auto simp: get_users_def)

text \<open>
  C1: for a user whose rights are set and every value of \<^verbatim>\<open>filt\<close>, Boolean or
  integer, the grouped list that \<^verbatim>\<open>get_projects\<close> starts from holds, for every
  project number among the rows with the requested active flag, exactly one such row,
  one with the latest assessment date of the project. The result narrows that list by
  role. Rights 9 when \<^verbatim>\<open>filt is True\<close>: the projects the user leads. Rights 8: when
  \<^verbatim>\<open>filt\<close> is true the projects the user leads, when it is false the projects led by
  an active user of the user's organisation (of any organisation when the user has
  none). Rights of 3 or less: the projects with an active ProjectTeam row of the user,
  and when \<^verbatim>\<open>filt\<close> is true only those of them the user leads. Every other case: the
  grouped list as it is. For rights 9 the flag counts as true only when it is the
  Boolean \<^verbatim>\<open>True\<close>, which is the test of the source; in the other branches its truth
  value decides, so the integer 1 narrows there and does not narrow for rights 9.
\<close>

theorem get_projects_result:
  assumes "rights user = Some r"
  shows "latest_rows_of (latest_active db active)
           {q \<in> set (IRL_Data db). active_irl q = Some (if active then 1 else 0)} \<and>
         get_projects user filt active db = Inr
           (if r = 9 \<and> is_True filt then
              [p \<leftarrow> latest_active db active. project_leader_id p = user_id user]
            else if r = 8 then
              (if truthy filt
               then [p \<leftarrow> latest_active db active. project_leader_id p = user_id user]
               else [p \<leftarrow> latest_active db active.
                       \<exists>u \<in> set (Users db). active_user u = Some 1 \<and>
                         (org_id user = None \<or> org_id u = org_id user) \<and>
                         project_leader_id p = user_id u])
            else if r \<le> 3 then
              [p \<leftarrow> latest_active db active.
                 (\<exists>t \<in> set (Project_Teams db). user_id_team t = user_id user \<and>
                    active_team t = Some 1 \<and> sql_eq (project_no p) (project_id t)) \<and>
                 (truthy filt \<longrightarrow> project_leader_id p = user_id user)]
            else latest_active db active)"
proof
  have "latest_rows_of (latest_active db active)
          (set [q \<leftarrow> IRL_Data db. active_irl q = Some (if active then 1 else 0)])"
    by (rule latest_per_project_latest)
  then show "latest_rows_of (latest_active db active)
           {q \<in> set (IRL_Data db). active_irl q = Some (if active then 1 else 0)}"
    by simp
next
  let ?a = "if active then 1 else (0::int)"
  let ?G = "latest_active db active"
  let ?res = "get_projects user filt active db"
  let ?M = "\<lambda>k. \<exists>t \<in> set (Project_Teams db). user_id_team t = user_id user \<and>
                    active_team t = Some 1 \<and> sql_eq k (project_id t)"
  have join: "latest_per_project
        [a. a \<leftarrow> IRL_Data db, t \<leftarrow> Project_Teams db,
            user_id_team t = user_id user \<and> active_team t = Some 1 \<and>
            sql_eq (project_no a) (project_id t) \<and> active_irl a = Some ?a] =
      [p \<leftarrow> ?G. ?M (project_no p)]"
    by (rule latest_per_project_join
          [where act = "\<lambda>a. active_irl a = Some ?a"
             and m = "\<lambda>a t. user_id_team t = user_id user \<and> active_team t = Some 1 \<and>
                        sql_eq (project_no a) (project_id t)"]) auto
  consider (admin) "r = 9" "is_True filt" | (super) "r = 8" | (team) "r \<le> 3" "r \<noteq> 8"
    | (other) "\<not> (r = 9 \<and> is_True filt)" "r \<noteq> 8" "\<not> r \<le> 3"
    by fastforce
  then show "?res = Inr
           (if r = 9 \<and> is_True filt then
              [p \<leftarrow> ?G. project_leader_id p = user_id user]
            else if r = 8 then
              (if truthy filt then [p \<leftarrow> ?G. project_leader_id p = user_id user]
               else [p \<leftarrow> ?G.
                       \<exists>u \<in> set (Users db). active_user u = Some 1 \<and>
                         (org_id user = None \<or> org_id u = org_id user) \<and>
                         project_leader_id p = user_id u])
            else if r \<le> 3 then
              [p \<leftarrow> ?G.
                 (\<exists>t \<in> set (Project_Teams db). user_id_team t = user_id user \<and>
                    active_team t = Some 1 \<and> sql_eq (project_no p) (project_id t)) \<and>
                 (truthy filt \<longrightarrow> project_leader_id p = user_id user)]
            else ?G)"
  proof cases
    case admin
    with assms show ?thesis
      by (simp add: get_projects_def Let_def)
  next
    case super
    with assms show ?thesis
      by (simp add: get_projects_def Let_def get_users_active_ids)
  next
    case team
    with assms join show ?thesis
      by (simp add: get_projects_def Let_def conj_commute)
  next
    case other
    with assms show ?thesis
      by (auto simp: get_projects_def Let_def)
  qed
qed

theorem get_projects_result_witness:
  "get_projects example_user (PyBool True) True example_portfolio = Inr [example_irl2] \<and>
   get_projects example_user (PyInt 1) True example_portfolio =
     Inr [example_irl3, example_irl2] \<and>
   get_projects example_bob (PyInt 1) True example_portfolio = Inr [] \<and>
   get_projects example_bob (PyBool False) True example_portfolio = Inr [example_irl2] \<and>
   get_projects example_cy (PyInt 1) True example_portfolio = Inr [example_irl3] \<and>
   get_projects example_cy (PyBool False) True example_portfolio =
     Inr [example_irl3, example_irl2] \<and>
   get_projects (example_cy\<lparr>rights := Some 5\<rparr>) (PyBool True) False example_portfolio =
     Inr [example_irl4]"
proof -
  have r9: "rights example_user = Some 9"
    and r8: "rights example_bob = Some 8"
    and r2: "rights example_cy = Some 2"
    and r5: "rights (example_cy\<lparr>rights := Some 5\<rparr>) = Some 5"
    by (simp_all add: example_user_def example_bob_def example_cy_def)
  have g: "latest_active example_portfolio True = [example_irl3, example_irl2]"
    by (simp add: latest_per_project_def example_portfolio_def example_irl_def example_irl2_def
        example_irl3_def example_irl4_def)
  have g0: "latest_active example_portfolio False = [example_irl4]"
    by (simp add: latest_per_project_def example_portfolio_def example_irl_def example_irl2_def
        example_irl3_def example_irl4_def)
  note t =
    get_projects_result [OF r9, where db = example_portfolio and active = True
      and filt = "PyBool True", THEN conjunct2]
    get_projects_result [OF r9, where db = example_portfolio and active = True
      and filt = "PyInt 1", THEN conjunct2]
    get_projects_result [OF r8, where db = example_portfolio and active = True
      and filt = "PyInt 1", THEN conjunct2]
    get_projects_result [OF r8, where db = example_portfolio and active = True
      and filt = "PyBool False", THEN conjunct2]
    get_projects_result [OF r2, where db = example_portfolio and active = True
      and filt = "PyInt 1", THEN conjunct2]
    get_projects_result [OF r2, where db = example_portfolio and active = True
      and filt = "PyBool False", THEN conjunct2]
    get_projects_result [OF r5, where db = example_portfolio and active = False
      and filt = "PyBool True", THEN conjunct2]
  show ?thesis
    unfolding t g g0
    by (simp add: example_portfolio_def example_irl_def example_irl2_def example_irl3_def
        example_irl4_def example_user_def example_bob_def example_cy_def example_team_def
        sql_eq_def)
qed

subsection \<open>get\_action\_points\<close>

lemma fold_add_known:
  "set ks \<subseteq> set acc \<Longrightarrow> fold (\<lambda>k ks. if k \<in> set ks then ks else ks @ [k]) ks acc = acc"
  by (induction ks arbitrary: acc) auto

lemma fold_add_new:
  "distinct (acc @ ks) \<Longrightarrow> fold (\<lambda>k ks. if k \<in> set ks then ks else ks @ [k]) ks acc = acc @ ks"
  by (induction ks arbitrary: acc) auto

lemma DataFrame_columns:
  assumes "points \<noteq> []" and "\<forall>row \<in> set points. map fst row = ks" and "distinct ks"
  shows "columns (DataFrame points) = ks"
proof -
  from assms(1) obtain row rest where p: "points = row # rest"
    by (cases points) auto
  with assms(2) have row: "map fst row = ks" and rest: "set (concat (map (map fst) rest)) \<subseteq> set ks"
    by auto
  have "fold (\<lambda>k ks. if k \<in> set ks then ks else ks @ [k]) ks [] = ks"
    using fold_add_new [of "[]" ks] assms(3) by simp
  then show ?thesis
    using row rest by (simp add: DataFrame_def p fold_add_known)
qed

lemma point_keys:
  "map fst (dict_update
     (case ap_user db ap of
        Some u \<Rightarrow> to_dict_User u
      | None \<Rightarrow>
          [(''user_id'', Null), (''actual_name'', Null), (''username'', Null),
           (''password'', Null), (''rights'', Null), (''active'', Null),
           (''org_id'', Null), (''fac_id'', Null), (''dep_id'', Null)])
     (to_dict_ActionPoint ap)) =
   [''user_id'', ''actual_name'', ''username'', ''password'', ''rights'', ''active'',
    ''org_id'', ''fac_id'', ''dep_id'', ''ap_id'', ''assessment_id'', ''irl_type'',
    ''action_point'', ''responsible'', ''due_date'', ''progress'', ''comment'']"
  by (cases "ap_user db ap")
    (simp_all add: dict_update_def to_dict_User_def to_dict_ActionPoint_def)

lemma set_column_columns:
  "columns (set_column k vs df) = (if k \<in> set (columns df) then columns df else columns df @ [k])"
  by (simp add: set_column_def)

lemma set_column_length:
  "length vs = length (records df) \<Longrightarrow> length (records (set_column k vs df)) = length (records df)"
  by (simp add: set_column_def)

text \<open>
  C9: called without a scale, \<^verbatim>\<open>get_action_points\<close> returns a table whose columns are
  the nine user columns, the key column of the action point, its seven other columns,
  \<^verbatim>\<open>aps\<close> and \<^verbatim>\<open>user_obj\<close>. The key column is \<^verbatim>\<open>ap_id\<close> whenever an action
  point matches and \<^verbatim>\<open>id\<close> in the empty table: the column set of the empty table
  is not the one of the non-empty case.
\<close>

theorem get_action_points_columns:
  "map_sum id columns (get_action_points dbdate2datetime irl_ass_id None db) =
     Inr ([''user_id'', ''actual_name'', ''username'', ''password'', ''rights'', ''active'',
           ''org_id'', ''fac_id'', ''dep_id''] @
          [if [ap \<leftarrow> Action_Points db. assessment_id ap = Some irl_ass_id] = []
           then ''id'' else ''ap_id''] @
          [''assessment_id'', ''irl_type'', ''action_point'', ''responsible'', ''due_date'',
           ''progress'', ''comment'', ''aps'', ''user_obj''])"
proof (cases "[ap \<leftarrow> Action_Points db. assessment_id ap = Some irl_ass_id] = []")
  case True
  then show ?thesis
    by (simp add: get_action_points_def DataFrame_def Let_def)
next
  case False
  define aps where "aps = [ap \<leftarrow> Action_Points db. assessment_id ap = Some irl_ass_id]"
  define points where "points = map (\<lambda>ap.
       dict_update
         (case ap_user db ap of
            Some u \<Rightarrow> to_dict_User u
          | None \<Rightarrow>
              [(''user_id'', Null), (''actual_name'', Null), (''username'', Null),
               (''password'', Null), (''rights'', Null), (''active'', Null),
               (''org_id'', Null), (''fac_id'', Null), (''dep_id'', Null)])
         (to_dict_ActionPoint ap)) aps"
  let ?ks = "[''user_id'', ''actual_name'', ''username'', ''password'', ''rights'', ''active'',
    ''org_id'', ''fac_id'', ''dep_id'', ''ap_id'', ''assessment_id'', ''irl_type'',
    ''action_point'', ''responsible'', ''due_date'', ''progress'', ''comment'']"
  define df1 where "df1 = set_column ''aps'' (map DictCell points) (DataFrame points)"
  define df2 where "df2 = set_column ''user_obj'' (map UserCell (map (ap_user db) aps)) df1"
  define df3 where "df3 = set_column ''due_date''
      (dbdates2datetimes dbdate2datetime (get_column ''due_date'' df2)) df2"
  from False have ne: "aps \<noteq> []" "points \<noteq> []"
    by (simp_all add: aps_def points_def)
  have len: "length points = length aps"
    by (simp add: points_def)
  have "\<forall>row \<in> set points. map fst row = ?ks"
    unfolding points_def by (auto simp: point_keys)
  then have c0: "columns (DataFrame points) = ?ks"
    using ne(2) by (intro DataFrame_columns) simp_all
  have r0: "records (DataFrame points) = points"
    by (simp add: DataFrame_def)
  have c1: "columns df1 = ?ks @ [''aps'']"
    by (simp add: df1_def set_column_columns c0)
  have l1: "length (records df1) = length points"
    by (simp add: df1_def set_column_length r0)
  have c2: "columns df2 = ?ks @ [''aps'', ''user_obj'']"
    by (simp add: df2_def set_column_columns c1)
  have l2: "length (records df2) = length points"
    by (simp add: df2_def set_column_length l1 len)
  have c3: "columns df3 = ?ks @ [''aps'', ''user_obj'']"
    by (simp add: df3_def set_column_columns c2)
  have l3: "length (records df3) = length points"
    by (simp add: df3_def set_column_length l2 dbdates2datetimes_def get_column_def)
  have "get_action_points dbdate2datetime irl_ass_id None db =
      (let aps_df = (if length points > 0 then df3 else DataFrame points)
       in if length (records aps_df) = 0 then
            Inr \<lparr>columns = [''user_id'', ''actual_name'', ''username'', ''password'', ''rights'',
                             ''active'', ''org_id'', ''fac_id'', ''dep_id'', ''id'',
                             ''assessment_id'', ''irl_type'', ''action_point'', ''responsible'',
                             ''due_date'', ''progress'', ''comment'', ''aps'', ''user_obj''],
                 records = []\<rparr>
          else Inr aps_df)"
    by (simp add: get_action_points_def Let_def df3_def df2_def df1_def points_def aps_def)
  moreover have "records df3 \<noteq> []"
    using ne(2) l3 by (cases "records df3") auto
  ultimately have "get_action_points dbdate2datetime irl_ass_id None db = Inr df3"
    using ne by (simp add: Let_def)
  with c3 False show ?thesis
    by simp
qed

subsection \<open>Navigation\<close>

text \<open>
  C8: for a user whose rights are set, \<^verbatim>\<open>get_tools_n_settings\<close> returns the extra pages
  of the role table: User Settings alone for rights below 2 and for 6 and 7; Project
  Tools, Reports and User Settings for 2 and 8; Project Tools, Reports, Admin Tools,
  User Settings and System Settings for 9; and no page list at all for every other
  value, in particular for 3, 4 and 5.
\<close>

theorem get_tools_n_settings_table:
  "rights user = Some r \<Longrightarrow>
   get_tools_n_settings user =
     Inr (if r < 2 \<or> r = 6 \<or> r = 7 then Some [user_settings_pg]
          else if r = 2 \<or> r = 8 then Some [project_tools_pg, reporting_pg, user_settings_pg]
          else if r = 9 then Some [project_tools_pg, reporting_pg, admin_tools_pg,
                                   user_settings_pg, sys_settings_pg]
          else None) \<and>
   (r = 3 \<or> r = 4 \<or> r = 5 \<longrightarrow> get_tools_n_settings user = Inr None)"
  by (auto simp: get_tools_n_settings_def)

theorem get_tools_n_settings_table_witness:
  "rights example_user = Some 9 \<and>
   get_tools_n_settings example_user =
     Inr (Some [project_tools_pg, reporting_pg, admin_tools_pg, user_settings_pg, sys_settings_pg]) \<and>
   rights (example_user\<lparr>rights := Some 4\<rparr>) = Some 4 \<and>
   get_tools_n_settings (example_user\<lparr>rights := Some 4\<rparr>) = Inr None"
proof -
  have r: "rights example_user = Some 9"
    by (simp add: example_user_def)
  have r4: "rights (example_user\<lparr>rights := Some 4\<rparr>) = Some 4"
    by simp
  show ?thesis
    using r r4 get_tools_n_settings_table [OF r] get_tools_n_settings_table [OF r4]
    by simp
qed

end
